theory Spec2Isabelle
  imports Main "HOL-Library.Sublist" "HOL-Library.Word"
begin

section \<open>The DigitalOcean session of \<^verbatim>\<open>src/index.ts\<close>\<close>

text \<open>
  A shallow embedding of the class \<^verbatim>\<open>RestApiSession\<close>: the transport
  \<^verbatim>\<open>request\<close>, the operations built on it, the retry loop of
  \<^verbatim>\<open>makeCreateDropletRequest\<close> and the name sanitisation
  \<^verbatim>\<open>makeValidDropletName\<close>.

  A JavaScript string is modelled as a \<^typ>\<open>string\<close>: the UTF-8 bytes of its
  text. Every character the source inspects (the class of the regular expression, the
  letters of \<^verbatim>\<open>'finalizing'\<close>, the characters that \<^verbatim>\<open>encodeURI\<close>
  keeps) is ASCII, one byte here and one code unit there; a character beyond ASCII is a run
  of bytes from 128 on. A surrogate that stands alone in the JavaScript string has no UTF-8
  form; it is given the three bytes that the UTF-8 scheme yields for its code point, ED,
  then a byte of A0..BF, then a byte of 80..BF, which no well-formed text holds.
\<close>

subsection \<open>Strings\<close>

definition in_range :: "char \<Rightarrow> char \<Rightarrow> char \<Rightarrow> bool" where
  "in_range lo hi c \<longleftrightarrow> (of_char lo :: nat) \<le> of_char c \<and> (of_char c :: nat) \<le> of_char hi"

text \<open>
  \<^verbatim>\<open>s.replace(/[...]/g, replacement)\<close> for a regular expression that is one
  character class: every matching character is replaced, the others stay in place.
\<close>

definition replace_g :: "(char \<Rightarrow> bool) \<Rightarrow> string \<Rightarrow> string \<Rightarrow> string" where
  "replace_g matches replacement s =
     concat (map (\<lambda>c. if matches c then replacement else [c]) s)"

text \<open>The class \<^verbatim>\<open>[A-Za-z0-9-]\<close>; the source's expression negates it.\<close>

definition name_class :: "char \<Rightarrow> bool" where
  "name_class c \<longleftrightarrow>
     in_range (CHR ''A'') (CHR ''Z'') c \<or> in_range (CHR ''a'') (CHR ''z'') c \<or>
     in_range (CHR ''0'') (CHR ''9'') c \<or> c = CHR ''-''"

text \<open>
  \<^verbatim>\<open>function makeValidDropletName(name) { return name.replace(/[^A-Za-z0-9-]/g, ''); }\<close>
\<close>

definition makeValidDropletName :: "string \<Rightarrow> string" where
  "makeValidDropletName name = replace_g (\<lambda>c. \<not> name_class c) [] name"

subsection \<open>JavaScript values\<close>

text \<open>
  The values that travel as JSON, and \<^verbatim>\<open>undefined\<close>. Numbers are the
  integers from 0 to \<open>2 ^ 53 - 1\<close>, \<^verbatim>\<open>Number.MAX_SAFE_INTEGER\<close>: the
  identifiers and HTTP statuses the program meets, each of them a JavaScript number that
  prints as its decimal digits. The program compares and prints them and does no
  arithmetic on them. An object is the list of its fields, the first binding of a key being
  the field.
\<close>

type_synonym js_num = "53 word"

datatype jsval =
    JUndefined
  | JNull
  | JBool bool
  | JNum js_num
  | JStr string
  | JArr "jsval list"
  | JObj "(string \<times> jsval) list"

text \<open>
  What is thrown or rejected with here: \<^verbatim>\<open>new XhrError()\<close>,
  \<^verbatim>\<open>new Error(message)\<close>, and the \<^verbatim>\<open>TypeError\<close> and
  \<^verbatim>\<open>URIError\<close> of the engine.
\<close>

datatype js_error = XhrError | Error string | TypeError string | URIError string

text \<open>
  Modelled from the spec: the class \<^verbatim>\<open>OutlineError\<close> of \<^verbatim>\<open>infra/errors\<close>, which
  \<^verbatim>\<open>XhrError\<close> extends, is not among the sources. \<^verbatim>\<open>XhrError\<close> calls its
  constructor with no argument (``No message because XMLHttpRequest.onerror provides no
  useful info''), and the spec has the error carry no message: its
  \<^verbatim>\<open>message\<close> is the empty string, as that of an \<^verbatim>\<open>Error\<close> built without one.
\<close>

fun message :: "js_error \<Rightarrow> string" where
  "message XhrError = []"
| "message (Error m) = m"
| "message (TypeError m) = m"
| "message (URIError m) = m"

text \<open>The test of \<^verbatim>\<open>v ? a : b\<close>.\<close>

fun truthy :: "jsval \<Rightarrow> bool" where
  "truthy JUndefined = False"
| "truthy JNull = False"
| "truthy (JBool b) = b"
| "truthy (JNum n) = (n \<noteq> 0)"
| "truthy (JStr s) = (s \<noteq> [])"
| "truthy (JArr xs) = True"
| "truthy (JObj fs) = True"

text \<open>
  The property read \<^verbatim>\<open>v.p\<close>, for the names the source reads
  (\<^verbatim>\<open>id\<close>, \<^verbatim>\<open>message\<close>, \<^verbatim>\<open>ssh_key\<close>, \<^verbatim>\<open>droplets\<close>): it throws on
  \<^verbatim>\<open>undefined\<close> and \<^verbatim>\<open>null\<close>, looks the field up in an object, and is
  \<^verbatim>\<open>undefined\<close> on a string, a number, a boolean and an array, none of which has
  a property of these names.
\<close>

fun get_prop :: "jsval \<Rightarrow> string \<Rightarrow> js_error + jsval" where
  "get_prop JUndefined p =
     Inl (TypeError (''Cannot read properties of undefined (reading '' @ [CHR 0x27] @ p @ [CHR 0x27] @ '')''))"
| "get_prop JNull p =
     Inl (TypeError (''Cannot read properties of null (reading '' @ [CHR 0x27] @ p @ [CHR 0x27] @ '')''))"
| "get_prop (JObj fs) p = Inr (case map_of fs p of None \<Rightarrow> JUndefined | Some v \<Rightarrow> v)"
| "get_prop v p = Inr JUndefined"

text \<open>
  Decimal digits of a number, as string concatenation and template literals print it: a
  number of the safe range prints as its digits in full.
\<close>

fun digits :: "nat \<Rightarrow> string" where
  "digits n =
     (if n < 10 then [''0123456789'' ! n]
      else digits (n div 10) @ [''0123456789'' ! (n mod 10)])"

definition show_num :: "js_num \<Rightarrow> string" where
  "show_num n = digits (unat n)"

text \<open>
  The conversion to a string of a template literal \<^verbatim>\<open>`${v}`\<close>. An object prints as
  \<^verbatim>\<open>[object Object]\<close> through the \<^verbatim>\<open>toString\<close> it inherits; when it
  carries a field of that name, which is data and cannot be called, the conversion
  throws. An array joins its elements with commas, \<^verbatim>\<open>null\<close> and
  \<^verbatim>\<open>undefined\<close> printing as nothing.
\<close>

fun to_string :: "jsval \<Rightarrow> js_error + string"
  and join_elems :: "jsval list \<Rightarrow> js_error + string" where
  "to_string JUndefined = Inr ''undefined''"
| "to_string JNull = Inr ''null''"
| "to_string (JBool b) = Inr (if b then ''true'' else ''false'')"
| "to_string (JNum n) = Inr (show_num n)"
| "to_string (JStr s) = Inr s"
| "to_string (JArr xs) = join_elems xs"
| "to_string (JObj fs) =
     (if ''toString'' \<in> fst ` set fs
      then Inl (TypeError ''Cannot convert object to primitive value'')
      else Inr ''[object Object]'')"
| "join_elems [] = Inr []"
| "join_elems (x # xs) =
     (case (if x = JNull \<or> x = JUndefined then Inr [] else to_string x) of
        Inl e \<Rightarrow> Inl e
      | Inr s \<Rightarrow>
          (if xs = [] then Inr s
           else (case join_elems xs of Inl e \<Rightarrow> Inl e | Inr t \<Rightarrow> Inr (s @ '','' @ t))))"

text \<open>
  \<^verbatim>\<open>s.toLowerCase()\<close>, on the letters of ASCII. The letters beyond ASCII that
  JavaScript maps as well are bytes from 128 on here and stay; none of them becomes part of
  an occurrence of \<^verbatim>\<open>finalizing\<close>, the one word the source looks for.
\<close>

definition toLowerCase :: "string \<Rightarrow> string" where
  "toLowerCase s =
     map (\<lambda>c. if in_range (CHR ''A'') (CHR ''Z'') c then char_of (of_char c + (32::nat)) else c) s"

text \<open>
  \<^verbatim>\<open>s.indexOf(pat)\<close>: the position of the first occurrence of \<^verbatim>\<open>pat\<close>, or
  \<^verbatim>\<open>-1\<close>.
\<close>

fun indexOf_from :: "string \<Rightarrow> string \<Rightarrow> nat \<Rightarrow> int" where
  "indexOf_from [] pat i = (if pat = [] then int i else - 1)"
| "indexOf_from (c # cs) pat i =
     (if prefix pat (c # cs) then int i else indexOf_from cs pat (Suc i))"

definition indexOf :: "string \<Rightarrow> string \<Rightarrow> int" where
  "indexOf s pat = indexOf_from s pat 0"

subsection \<open>Promises, the network and the trace\<close>

text \<open>
  A promise at the end of the run: fulfilled with a value, rejected with an error, or
  never settled.
\<close>

datatype 'a promise = Resolved 'a | Rejected js_error | Pending

text \<open>
  \<^verbatim>\<open>p.then(f)\<close> for a callback that returns a value or throws: a throw in the
  callback rejects the new promise.
\<close>

fun then_p :: "'a promise \<Rightarrow> ('a \<Rightarrow> js_error + 'b) \<Rightarrow> 'b promise" where
  "then_p (Resolved v) f = (case f v of Inl e \<Rightarrow> Rejected e | Inr w \<Rightarrow> Resolved w)"
| "then_p (Rejected e) f = Rejected e"
| "then_p Pending f = Pending"

text \<open>
  What the HTTP exchange under a call of \<^verbatim>\<open>axios\<close> comes to: the provider's
  reply, with its status and the body as the library hands it on in
  \<^verbatim>\<open>response.data\<close>, or a failure of the transport with the library's message
  (an unknown host, a reset connection, a timeout).
\<close>

datatype http_outcome = Response js_num jsval | NetworkError string

text \<open>The argument of the \<^verbatim>\<open>axios\<close> call; its field \<^verbatim>\<open>method\<close> has a prefix here.\<close>

record axios_config =
  http_method :: string
  url :: string
  headers :: "(string \<times> string) list"
  data :: "jsval option"

text \<open>
  The effects a run leaves, in order: the calls of \<^verbatim>\<open>axios\<close> and the timers
  set with \<^verbatim>\<open>setTimeout\<close> (the delay in milliseconds). The console is not
  modelled.
\<close>

datatype event = Axios axios_config | SetTimeout nat

fun is_Axios :: "event \<Rightarrow> bool" where
  "is_Axios (Axios c) = True"
| "is_Axios (SetTimeout ms) = False"

definition calls :: "event list \<Rightarrow> nat" where
  "calls tr = length (filter is_Axios tr)"

text \<open>The network: the outcome of each call of \<^verbatim>\<open>axios\<close>, by its number.\<close>

type_synonym network = "nat \<Rightarrow> http_outcome"

text \<open>
  Two networks for concrete runs: one that gives every call the same outcome, and one that
  answers the calls from a list, in order, and every later call with a last outcome.
\<close>

definition replying :: "http_outcome \<Rightarrow> network" where
  "replying out n = out"

definition script :: "http_outcome list \<Rightarrow> http_outcome \<Rightarrow> network" where
  "script outs last_out n = (if n < length outs then outs ! n else last_out)"

record session =
  accessToken :: string

subsection \<open>Transport\<close>

text \<open>
  The library \<^verbatim>\<open>axios\<close>, version 0.27.2 by \<^verbatim>\<open>package.json\<close>, is outside
  the repository; what \<^verbatim>\<open>request\<close> relies on is modelled from its defaults,
  since the call passes \<^verbatim>\<open>method\<close>, \<^verbatim>\<open>url\<close>, \<^verbatim>\<open>headers\<close> and
  \<^verbatim>\<open>data\<close> and nothing else. The default
  \<^verbatim>\<open>validateStatus\<close> is \<^verbatim>\<open>status >= 200 && status < 300\<close>: the promise of
  \<^verbatim>\<open>axios\<close> is fulfilled with the response for these statuses and rejected with an
  error for every other, as it is when the transport fails, so that
  \<^verbatim>\<open>await axios(...)\<close> returns or throws.
\<close>

definition validateStatus :: "js_num \<Rightarrow> bool" where
  "validateStatus status \<longleftrightarrow> 200 \<le> status \<and> status < 300"

datatype axios_result = Returned js_num jsval | Thrown string

definition axios :: "http_outcome \<Rightarrow> axios_result" where
  "axios out =
     (case out of
        NetworkError m \<Rightarrow> Thrown m
      | Response status d \<Rightarrow>
          if validateStatus status then Returned status d
          else Thrown (''Request failed with status code '' @ show_num status))"

text \<open>
  The default \<^verbatim>\<open>transformResponse\<close> of the library, which makes
  \<^verbatim>\<open>response.data\<close> from the text of the body: a text that is not empty goes
  to \<^verbatim>\<open>JSON.parse\<close> and stays as it is when that fails; the empty text is handed on
  as the empty string and the parser is not called. The parser is a parameter.
\<close>

definition transformResponse :: "(string \<Rightarrow> jsval option) \<Rightarrow> string \<Rightarrow> jsval" where
  "transformResponse parse raw =
     (if raw = [] then JStr []
      else (case parse raw of None \<Rightarrow> JStr raw | Some v \<Rightarrow> v))"

text \<open>
  The \<^verbatim>\<open>try\<close> block of \<^verbatim>\<open>request\<close> with its \<^verbatim>\<open>catch\<close>: what
  \<^verbatim>\<open>await axios(...)\<close> throws, and what is thrown while the error message is
  built, is logged, and neither \<^verbatim>\<open>resolve\<close> nor \<^verbatim>\<open>reject\<close> is
  called. The branches for a status outside 200..299 are those of the source.
\<close>

definition settle :: "http_outcome \<Rightarrow> jsval promise" where
  "settle out =
     (case axios out of
        Thrown e \<Rightarrow> Pending
      | Returned status d \<Rightarrow>
          if 200 \<le> status \<and> status \<le> 299 then Resolved (if truthy d then d else JObj [])
          else if status = 401 then Rejected XhrError
          else
            (case get_prop d ''id'' of
               Inl e \<Rightarrow> Pending
             | Inr i \<Rightarrow>
                 (case to_string i of
                    Inl e \<Rightarrow> Pending
                  | Inr id_text \<Rightarrow>
                      (case get_prop d ''message'' of
                         Inl e \<Rightarrow> Pending
                       | Inr m \<Rightarrow>
                           (case to_string m of
                              Inl e \<Rightarrow> Pending
                            | Inr message_text \<Rightarrow>
                                Rejected (Error (''XHR '' @ id_text @ '' failed with '' @
                                  show_num status @ '': '' @ message_text)))))))"

definition api_config :: "session \<Rightarrow> string \<Rightarrow> string \<Rightarrow> jsval option \<Rightarrow> axios_config" where
  "api_config this meth actionPath body =
     \<lparr>http_method = meth,
      url = ''https://api.digitalocean.com/v2/'' @ actionPath,
      headers = [(''Authorization'', ''Bearer '' @ accessToken this),
                 (''Content-Type'', ''application/json'')],
      data = body\<rparr>"

definition request ::
  "network \<Rightarrow> session \<Rightarrow> string \<Rightarrow> string \<Rightarrow> jsval option \<Rightarrow> event list \<Rightarrow>
     jsval promise \<times> event list" where
  "request net this meth actionPath body tr =
     (settle (net (calls tr)), tr @ [Axios (api_config this meth actionPath body)])"

subsection \<open>The session's operations\<close>

text \<open>\<^verbatim>\<open>DigitalOceanDropletSpecification\<close>; two field names carry a suffix, HOL having
  constants \<open>size\<close> and \<open>image\<close>.\<close>

record dropletSpecification =
  installCommand :: string
  size_slug :: string
  image_slug :: string
  tags :: "string list"

text \<open>
  \<^verbatim>\<open>registerKey_\<close>: the request, then
  \<^verbatim>\<open>.then((response) => response.ssh_key.id)\<close>.
\<close>

definition key_body :: "string \<Rightarrow> string \<Rightarrow> jsval" where
  "key_body keyName publicKeyForSSH =
     JObj [(''name'', JStr keyName), (''public_key'', JStr publicKeyForSSH)]"

definition registerKey ::
  "network \<Rightarrow> session \<Rightarrow> string \<Rightarrow> string \<Rightarrow> event list \<Rightarrow> jsval promise \<times> event list" where
  "registerKey net this keyName publicKeyForSSH tr =
     (case request net this ''POST'' ''account/keys'' (Some (key_body keyName publicKeyForSSH)) tr of
        (p, tr') \<Rightarrow>
          (then_p p
             (\<lambda>response.
                case get_prop response ''ssh_key'' of
                  Inl e \<Rightarrow> Inl e
                | Inr k \<Rightarrow> get_prop k ''id''),
           tr'))"

definition MAX_REQUESTS :: nat where
  "MAX_REQUESTS = 10"

definition RETRY_TIMEOUT_MS :: nat where
  "RETRY_TIMEOUT_MS = 5000"

text \<open>The object literal that \<^verbatim>\<open>makeRequestRecursive\<close> posts to \<^verbatim>\<open>droplets\<close>.\<close>

definition droplet_body :: "string \<Rightarrow> string \<Rightarrow> jsval \<Rightarrow> dropletSpecification \<Rightarrow> jsval" where
  "droplet_body dropletName region keyId dropletSpec =
     JObj [(''name'', JStr dropletName),
           (''region'', JStr region),
           (''size'', JStr (size_slug dropletSpec)),
           (''image'', JStr (image_slug dropletSpec)),
           (''ssh_keys'', JArr [keyId]),
           (''user_data'', JStr (installCommand dropletSpec)),
           (''tags'', JArr (map JStr (tags dropletSpec))),
           (''ipv6'', JBool True)]"

text \<open>
  \<^verbatim>\<open>makeRequestRecursive\<close>, the closure of \<^verbatim>\<open>makeCreateDropletRequest\<close>. Its
  counter \<^verbatim>\<open>requestCount\<close> is an argument here; the call it schedules with
  \<^verbatim>\<open>setTimeout\<close> is the recursive call, the timer being recorded in the trace.
  \<^verbatim>\<open>.then(fulfill)\<close> settles the promise of \<^verbatim>\<open>makeCreateDropletRequest\<close> with
  the response, \<^verbatim>\<open>.catch\<close> retries or rejects; a request that never settles leaves
  it pending.
\<close>

function makeRequestRecursive ::
  "network \<Rightarrow> session \<Rightarrow> string \<Rightarrow> string \<Rightarrow> jsval \<Rightarrow> dropletSpecification \<Rightarrow> nat \<Rightarrow>
     event list \<Rightarrow> jsval promise \<times> event list" where
  "makeRequestRecursive net this dropletName region keyId dropletSpec requestCount tr =
     (let requestCount' = requestCount + 1 in
      case request net this ''POST'' ''droplets''
             (Some (droplet_body dropletName region keyId dropletSpec)) tr of
        (p, tr') \<Rightarrow>
          (case p of
             Resolved v \<Rightarrow> (Resolved v, tr')
           | Pending \<Rightarrow> (Pending, tr')
           | Rejected e \<Rightarrow>
               if 0 \<le> indexOf (toLowerCase (message e)) ''finalizing'' \<and>
                  requestCount' < MAX_REQUESTS
               then makeRequestRecursive net this dropletName region keyId dropletSpec
                      requestCount' (tr' @ [SetTimeout RETRY_TIMEOUT_MS])
               else (Rejected e, tr')))"
  by pat_completeness auto
termination
  by (relation "measure (\<lambda>(net, this, dropletName, region, keyId, dropletSpec, requestCount, tr).
        MAX_REQUESTS - requestCount)") auto

declare makeRequestRecursive.simps [simp del]

definition makeCreateDropletRequest ::
  "network \<Rightarrow> session \<Rightarrow> string \<Rightarrow> string \<Rightarrow> jsval \<Rightarrow> dropletSpecification \<Rightarrow>
     event list \<Rightarrow> jsval promise \<times> event list" where
  "makeCreateDropletRequest net this dropletName region keyId dropletSpec tr =
     makeRequestRecursive net this dropletName region keyId dropletSpec 0 tr"

text \<open>
  \<^verbatim>\<open>createDroplet\<close>: the key is registered, and
  \<^verbatim>\<open>.then((keyId) => this.makeCreateDropletRequest(...))\<close> runs only when the
  registration is fulfilled.
\<close>

definition createDroplet ::
  "network \<Rightarrow> session \<Rightarrow> string \<Rightarrow> string \<Rightarrow> string \<Rightarrow> dropletSpecification \<Rightarrow>
     event list \<Rightarrow> jsval promise \<times> event list" where
  "createDroplet net this displayName region publicKeyForSSH dropletSpec tr =
     (let dropletName = makeValidDropletName displayName in
      case registerKey net this dropletName publicKeyForSSH tr of
        (p, tr') \<Rightarrow>
          (case p of
             Resolved keyId \<Rightarrow>
               makeCreateDropletRequest net this dropletName region keyId dropletSpec tr'
           | Rejected e \<Rightarrow> (Rejected e, tr')
           | Pending \<Rightarrow> (Pending, tr')))"

text \<open>\<^verbatim>\<open>deleteDroplet\<close>: \<^verbatim>\<open>this.request('DELETE', 'droplets/' + dropletId)\<close>.\<close>

definition deleteDroplet ::
  "network \<Rightarrow> session \<Rightarrow> js_num \<Rightarrow> event list \<Rightarrow> jsval promise \<times> event list" where
  "deleteDroplet net this dropletId tr =
     request net this ''DELETE'' (''droplets/'' @ show_num dropletId) None tr"

text \<open>
  \<^verbatim>\<open>encodeURI\<close>: the letters, the digits and the marks
  \<^verbatim>\<open>; / ? : @ & = + $ , - _ . ! ~ * ' ( ) #\<close> stay; every other character becomes
  the bytes of its UTF-8 form, each written \<^verbatim>\<open>%XX\<close> in upper-case hexadecimal.
  On a string that holds a surrogate standing alone it throws \<^verbatim>\<open>URIError\<close>.
\<close>

fun lone_surrogate :: "string \<Rightarrow> bool" where
  "lone_surrogate (a # b # cs) =
     ((of_char a = (0xED::nat) \<and> (0xA0::nat) \<le> of_char b \<and> of_char b \<le> (0xBF::nat)) \<or>
      lone_surrogate (b # cs))"
| "lone_surrogate cs = False"

definition hex_digit :: "nat \<Rightarrow> char" where
  "hex_digit n = ''0123456789ABCDEF'' ! (n mod 16)"

definition percent_encode :: "char \<Rightarrow> string" where
  "percent_encode c = [CHR ''%'', hex_digit (of_char c div 16), hex_digit (of_char c mod 16)]"

definition uri_kept :: "char \<Rightarrow> bool" where
  "uri_kept c \<longleftrightarrow>
     in_range (CHR ''A'') (CHR ''Z'') c \<or> in_range (CHR ''a'') (CHR ''z'') c \<or>
     in_range (CHR ''0'') (CHR ''9'') c \<or> c \<in> set ('';/?:@&=+$,-_.!~*()#'' @ [CHR 0x27])"

definition encodeURI :: "string \<Rightarrow> js_error + string" where
  "encodeURI s =
     (if lone_surrogate s then Inl (URIError ''URI malformed'')
      else Inr (concat (map (\<lambda>c. if uri_kept c then [c] else percent_encode c) s)))"

text \<open>
  \<^verbatim>\<open>getDropletsByTag\<close>: the path is built first, and an exception of
  \<^verbatim>\<open>encodeURI\<close> leaves the method before any request (\<open>Inl\<close>); then the
  request, and \<^verbatim>\<open>.then((response) => response.droplets)\<close>.
\<close>

definition getDropletsByTag ::
  "network \<Rightarrow> session \<Rightarrow> string \<Rightarrow> event list \<Rightarrow>
     js_error + jsval promise \<times> event list" where
  "getDropletsByTag net this tag tr =
     (case encodeURI tag of
        Inl e \<Rightarrow> Inl e
      | Inr escaped \<Rightarrow>
          (case request net this ''GET'' (''droplets?tag_name='' @ escaped) None tr of
             (p, tr') \<Rightarrow> Inr (then_p p (\<lambda>response. get_prop response ''droplets''), tr')))"

text \<open>The events of the two requests of \<^verbatim>\<open>createDroplet\<close>, for the statements below.\<close>

definition key_request :: "session \<Rightarrow> string \<Rightarrow> string \<Rightarrow> event" where
  "key_request this keyName publicKeyForSSH =
     Axios (api_config this ''POST'' ''account/keys'' (Some (key_body keyName publicKeyForSSH)))"

definition droplet_request ::
  "session \<Rightarrow> string \<Rightarrow> string \<Rightarrow> jsval \<Rightarrow> dropletSpecification \<Rightarrow> event" where
  "droplet_request this dropletName region keyId dropletSpec =
     Axios (api_config this ''POST'' ''droplets''
       (Some (droplet_body dropletName region keyId dropletSpec)))"

text \<open>
  An error that the retry loop takes for the provider's finalizing window: its message, in
  lower case, holds \<^verbatim>\<open>finalizing\<close>. The loop itself tests
  \<^verbatim>\<open>e.message.toLowerCase().indexOf('finalizing') >= 0\<close>; the two agree
  (lemma \<open>indexOf_finalizing\<close>).
\<close>

definition finalizing :: "js_error \<Rightarrow> bool" where
  "finalizing e \<longleftrightarrow> (\<exists>us vs. toLowerCase (message e) = us @ ''finalizing'' @ vs)"

text \<open>
  Concrete values for the runs below: the provider's replies to a key registration, to a
  creation during the finalizing window, to a creation that succeeds and to one that fails
  for another reason; the session of \<^verbatim>\<open>main\<close>, whose token is the empty
  string; and a droplet specification.
\<close>

definition key_reply :: http_outcome where
  "key_reply = Response 201 (JObj [(''ssh_key'', JObj [(''id'', JNum 512189)])])"

definition finalizing_reply :: http_outcome where
  "finalizing_reply = Response 422
     (JObj [(''id'', JStr ''unprocessable_entity''),
            (''message'', JStr ''Your account is still Finalizing. Please try again shortly.'')])"

definition droplet_reply :: http_outcome where
  "droplet_reply = Response 202 (JObj [(''droplet'', JObj [(''id'', JNum 3164494)])])"

definition other_reply :: http_outcome where
  "other_reply = Response 422
     (JObj [(''id'', JStr ''unprocessable_entity''),
            (''message'', JStr ''Region is not available'')])"

definition orbitez_session :: session where
  "orbitez_session = \<lparr>accessToken = []\<rparr>"

definition orbitez_spec :: dropletSpecification where
  "orbitez_spec = \<lparr>installCommand = ''#!/bin/bash'', size_slug = ''s-2vcpu-4gb'',
     image_slug = ''docker-20-04'', tags = [''orbitez'']\<rparr>"

subsection \<open>Sanitisation\<close>

lemma replace_g_empty: "replace_g p [] s = filter (\<lambda>c. \<not> p c) s"
  by (induction s) (simp_all add: replace_g_def)

lemma makeValidDropletName_filter: "makeValidDropletName name = filter name_class name"
  by (simp add: makeValidDropletName_def replace_g_empty)

lemma name_class_set:
  "name_class c \<longleftrightarrow>
     c \<in> set ''ABCDEFGHIJKLMNOPQRSTUVWXYZabcdefghijklmnopqrstuvwxyz0123456789-''"
  by (cases c) (simp add: name_class_def in_range_def; blast)

subsection \<open>Substring search\<close>

lemma indexOf_from_nonneg_iff:
  "0 \<le> indexOf_from s pat i \<longleftrightarrow> (\<exists>us vs. s = us @ pat @ vs)"
proof (induction s arbitrary: i)
  case Nil
  then show ?case by simp
next
  case (Cons c cs)
  show ?case
  proof (cases "prefix pat (c # cs)")
    case True
    then obtain vs where "c # cs = pat @ vs" by (auto simp: prefix_def)
    then have "c # cs = [] @ pat @ vs" by simp
    then have "\<exists>us vs. c # cs = us @ pat @ vs" by blast
    moreover have "0 \<le> indexOf_from (c # cs) pat i" using True by simp
    ultimately show ?thesis by blast
  next
    case False
    have "(\<exists>us vs. c # cs = us @ pat @ vs) \<longleftrightarrow> (\<exists>us vs. cs = us @ pat @ vs)"
    proof
      assume "\<exists>us vs. c # cs = us @ pat @ vs"
      then obtain us vs where eq: "c # cs = us @ pat @ vs" by blast
      show "\<exists>us vs. cs = us @ pat @ vs"
      proof (cases us)
        case Nil
        with eq have "prefix pat (c # cs)" by (simp add: prefix_def)
        with False show ?thesis by simp
      next
        case (Cons u us')
        with eq have "cs = us' @ pat @ vs" by simp
        then show ?thesis by blast
      qed
    next
      assume "\<exists>us vs. cs = us @ pat @ vs"
      then obtain us vs where "cs = us @ pat @ vs" by blast
      then have "c # cs = (c # us) @ pat @ vs" by simp
      then show "\<exists>us vs. c # cs = us @ pat @ vs" by blast
    qed
    with False Cons.IH [of "Suc i"] show ?thesis by simp
  qed
qed

lemma indexOf_finalizing:
  "0 \<le> indexOf (toLowerCase (message e)) ''finalizing'' \<longleftrightarrow> finalizing e"
  by (simp add: indexOf_def indexOf_from_nonneg_iff finalizing_def)

subsection \<open>One attempt of the retry loop\<close>

lemma attempt_resolved:
  assumes "settle (net (calls tr)) = Resolved v"
  shows "makeRequestRecursive net this dropletName region keyId dropletSpec c tr =
           (Resolved v, tr @ [droplet_request this dropletName region keyId dropletSpec])"
  using assms
  by (subst makeRequestRecursive.simps) (simp add: request_def droplet_request_def)

lemma attempt_pending:
  assumes "settle (net (calls tr)) = Pending"
  shows "makeRequestRecursive net this dropletName region keyId dropletSpec c tr =
           (Pending, tr @ [droplet_request this dropletName region keyId dropletSpec])"
  using assms
  by (subst makeRequestRecursive.simps) (simp add: request_def droplet_request_def)

lemma attempt_retry:
  assumes "settle (net (calls tr)) = Rejected e"
    and "finalizing e"
    and "Suc c < MAX_REQUESTS"
  shows "makeRequestRecursive net this dropletName region keyId dropletSpec c tr =
           makeRequestRecursive net this dropletName region keyId dropletSpec (Suc c)
             (tr @ [droplet_request this dropletName region keyId dropletSpec,
                    SetTimeout RETRY_TIMEOUT_MS])"
  using assms
  by (subst makeRequestRecursive.simps)
    (simp add: request_def droplet_request_def indexOf_finalizing)

lemma attempt_rejected:
  assumes "settle (net (calls tr)) = Rejected e"
    and "\<not> finalizing e \<or> \<not> Suc c < MAX_REQUESTS"
  shows "makeRequestRecursive net this dropletName region keyId dropletSpec c tr =
           (Rejected e, tr @ [droplet_request this dropletName region keyId dropletSpec])"
  using assms
  by (subst makeRequestRecursive.simps)
    (auto simp add: request_def droplet_request_def indexOf_finalizing)

lemma request_outcome:
  "fst (request net this meth actionPath body tr) = settle (net (calls tr))"
  by (simp add: request_def)

lemma registerKey_trace:
  "snd (registerKey net this keyName publicKeyForSSH tr) =
     tr @ [key_request this keyName publicKeyForSSH]"
  by (simp add: registerKey_def request_def key_request_def)

lemma calls_snoc_Axios: "calls (tr @ [Axios c]) = Suc (calls tr)"
  by (simp add: calls_def)

lemma calls_snoc_SetTimeout: "calls (tr @ [SetTimeout ms]) = calls tr"
  by (simp add: calls_def)

lemma calls_append: "calls (xs @ ys) = calls xs + calls ys"
  by (simp add: calls_def)

lemma createDroplet_unfold:
  "createDroplet net this displayName region publicKeyForSSH dropletSpec tr =
     (case fst (registerKey net this (makeValidDropletName displayName) publicKeyForSSH tr) of
        Resolved keyId \<Rightarrow>
          makeRequestRecursive net this (makeValidDropletName displayName) region keyId dropletSpec 0
            (tr @ [key_request this (makeValidDropletName displayName) publicKeyForSSH])
      | Rejected e \<Rightarrow>
          (Rejected e, tr @ [key_request this (makeValidDropletName displayName) publicKeyForSSH])
      | Pending \<Rightarrow>
          (Pending, tr @ [key_request this (makeValidDropletName displayName) publicKeyForSSH]))"
  using registerKey_trace [of net this "makeValidDropletName displayName" publicKeyForSSH tr]
  by (cases "registerKey net this (makeValidDropletName displayName) publicKeyForSSH tr")
    (simp add: createDroplet_def makeCreateDropletRequest_def Let_def split: promise.splits)

lemma orbitez_name: "makeValidDropletName ''ORBITEZ_TEZ_NODE'' = ''ORBITEZTEZNODE''"
  by (simp add: makeValidDropletName_filter name_class_def in_range_def)

subsection \<open>What a request can come to\<close>

lemma validateStatus_iff: "validateStatus status \<longleftrightarrow> 200 \<le> status \<and> status \<le> 299"
  unfolding validateStatus_def by (auto simp add: word_le_nat_alt word_less_nat_alt)

lemma settle_NetworkError: "settle (NetworkError m) = Pending"
  by (simp add: settle_def axios_def)

lemma settle_Response:
  "settle (Response status d) =
     (if validateStatus status then Resolved (if truthy d then d else JObj []) else Pending)"
proof (cases "validateStatus status")
  case True
  then have "200 \<le> status \<and> status \<le> 299" by (simp add: validateStatus_iff)
  with True show ?thesis by (simp add: settle_def axios_def)
next
  case False
  then show ?thesis by (simp add: settle_def axios_def)
qed

lemma settle_refused_status:
  "\<not> validateStatus status \<Longrightarrow> settle (Response status d) = Pending"
  by (simp add: settle_Response)

lemma settle_never_rejects: "settle out \<noteq> Rejected e"
  by (cases out) (simp_all add: settle_Response settle_NetworkError)

lemma key_reply_registers:
  assumes "net (calls tr) = key_reply"
  shows "fst (registerKey net this keyName publicKeyForSSH tr) = Resolved (JNum 512189)"
  using assms
  by (simp add: registerKey_def request_def settle_Response validateStatus_def key_reply_def)


lemma one_attempt:
  "makeRequestRecursive net this dropletName region keyId dropletSpec c tr =
     (settle (net (calls tr)),
      tr @ [droplet_request this dropletName region keyId dropletSpec])"
proof (cases "settle (net (calls tr))")
  case (Resolved v)
  then show ?thesis by (simp add: attempt_resolved)
next
  case (Rejected e)
  with settle_never_rejects show ?thesis by blast
next
  case Pending
  then show ?thesis by (simp add: attempt_pending)
qed

lemma finalizing_reply_refused: "settle finalizing_reply = Pending"
  by (simp add: finalizing_reply_def settle_refused_status validateStatus_def)

lemma other_reply_refused: "settle other_reply = Pending"
  by (simp add: other_reply_def settle_refused_status validateStatus_def)

lemma creation_after_key_reply:
  assumes "net 0 = key_reply"
  shows "createDroplet net this displayName region publicKeyForSSH dropletSpec [] =
     (settle (net 1),
      [key_request this (makeValidDropletName displayName) publicKeyForSSH,
       droplet_request this (makeValidDropletName displayName) region (JNum 512189)
         dropletSpec])"
proof -
  have "net (calls []) = key_reply" using assms by (simp add: calls_def)
  then have key: "fst (registerKey net this (makeValidDropletName displayName)
      publicKeyForSSH []) = Resolved (JNum 512189)"
    by (rule key_reply_registers)
  have "calls [key_request this (makeValidDropletName displayName) publicKeyForSSH] = 1"
    by (simp add: calls_def key_request_def)
  then show ?thesis
    by (simp add: createDroplet_unfold key one_attempt)
qed

lemma encodeURI_foo_bar: "encodeURI ''foo bar'' = Inr ''foo%20bar''"
  by (simp add: encodeURI_def uri_kept_def in_range_def percent_encode_def hex_digit_def)

lemma encodeURI_lone_surrogate:
  "encodeURI [CHR 0xED, CHR 0xA0, CHR 0x80] = Inl (URIError ''URI malformed'')"
  by (simp add: encodeURI_def)

lemma getDropletsByTag_lone_surrogate:
  "getDropletsByTag net this [CHR 0xED, CHR 0xA0, CHR 0x80] tr =
     Inl (URIError ''URI malformed'')"
  by (simp add: getDropletsByTag_def encodeURI_lone_surrogate)

subsection \<open>The events of a creation\<close>

lemma makeRequestRecursive_events:
  "set (snd (makeRequestRecursive net this dropletName region keyId dropletSpec c tr)) \<subseteq>
     set tr \<union> {droplet_request this dropletName region keyId dropletSpec,
                SetTimeout RETRY_TIMEOUT_MS}"
proof (induction n \<equiv> "MAX_REQUESTS - c" arbitrary: c tr)
  case 0
  then have stop: "\<not> Suc c < MAX_REQUESTS" by simp
  show ?case
  proof (cases "settle (net (calls tr))")
    case (Resolved v)
    then show ?thesis by (auto simp add: attempt_resolved)
  next
    case (Rejected e)
    with stop show ?thesis by (auto simp add: attempt_rejected)
  next
    case Pending
    then show ?thesis by (auto simp add: attempt_pending)
  qed
next
  case (Suc n)
  let ?D = "droplet_request this dropletName region keyId dropletSpec"
  let ?T = "SetTimeout RETRY_TIMEOUT_MS"
  show ?case
  proof (cases "settle (net (calls tr))")
    case (Resolved v)
    then show ?thesis by (auto simp add: attempt_resolved)
  next
    case Pending
    then show ?thesis by (auto simp add: attempt_pending)
  next
    case (Rejected e)
    show ?thesis
    proof (cases "finalizing e \<and> Suc c < MAX_REQUESTS")
      case False
      with Rejected show ?thesis by (auto simp add: attempt_rejected)
    next
      case True
      with Suc.hyps(2) have "n = MAX_REQUESTS - Suc c" by simp
      then have "set (snd (makeRequestRecursive net this dropletName region keyId dropletSpec
          (Suc c) (tr @ [?D, ?T]))) \<subseteq> set (tr @ [?D, ?T]) \<union> {?D, ?T}"
        by (rule Suc.hyps(1))
      moreover have "makeRequestRecursive net this dropletName region keyId dropletSpec c tr =
          makeRequestRecursive net this dropletName region keyId dropletSpec (Suc c)
            (tr @ [?D, ?T])"
        using Rejected True by (simp add: attempt_retry)
      ultimately show ?thesis by auto
    qed
  qed
qed

lemma createDroplet_events:
  assumes "ev \<in> set (snd (createDroplet net this displayName region publicKeyForSSH dropletSpec tr))"
  shows "ev \<in> set tr \<or>
         ev = key_request this (makeValidDropletName displayName) publicKeyForSSH \<or>
         (\<exists>keyId. ev = droplet_request this (makeValidDropletName displayName) region keyId
            dropletSpec) \<or>
         ev = SetTimeout RETRY_TIMEOUT_MS"
proof (cases "fst (registerKey net this (makeValidDropletName displayName) publicKeyForSSH tr)")
  case (Resolved keyId)
  with assms have "ev \<in> set (snd (makeRequestRecursive net this
      (makeValidDropletName displayName) region keyId dropletSpec 0
      (tr @ [key_request this (makeValidDropletName displayName) publicKeyForSSH])))"
    by (simp add: createDroplet_unfold)
  with makeRequestRecursive_events [of net this "makeValidDropletName displayName" region keyId
      dropletSpec 0 "tr @ [key_request this (makeValidDropletName displayName) publicKeyForSSH]"]
  show ?thesis by auto
next
  case (Rejected e)
  with assms show ?thesis by (auto simp add: createDroplet_unfold)
next
  case Pending
  with assms show ?thesis by (auto simp add: createDroplet_unfold)
qed

lemma key_request_name:
  "Axios c = key_request this keyName publicKeyForSSH \<Longrightarrow>
     \<exists>fs. data c = Some (JObj fs) \<and> map_of fs ''name'' = Some (JStr keyName)"
  by (auto simp add: key_request_def api_config_def key_body_def)

lemma droplet_request_name:
  "Axios c = droplet_request this dropletName region keyId dropletSpec \<Longrightarrow>
     \<exists>fs. data c = Some (JObj fs) \<and> map_of fs ''name'' = Some (JStr dropletName)"
  by (auto simp add: droplet_request_def api_config_def droplet_body_def)

lemma two_request_run:
  "createDroplet (replying key_reply) orbitez_session ''ORBITEZ_TEZ_NODE'' ''nyc3''
     ''ssh-rsa AAAAB3Nza'' orbitez_spec [] =
   (Resolved (JObj [(''ssh_key'', JObj [(''id'', JNum 512189)])]),
    [key_request orbitez_session ''ORBITEZTEZNODE'' ''ssh-rsa AAAAB3Nza'',
     droplet_request orbitez_session ''ORBITEZTEZNODE'' ''nyc3'' (JNum 512189) orbitez_spec])"
proof -
  let ?K = "key_request orbitez_session ''ORBITEZTEZNODE'' ''ssh-rsa AAAAB3Nza''"
  have key: "fst (registerKey (replying key_reply) orbitez_session ''ORBITEZTEZNODE''
      ''ssh-rsa AAAAB3Nza'' []) = Resolved (JNum 512189)"
    by (rule key_reply_registers) (simp add: replying_def)
  have second: "settle (replying key_reply (calls [?K])) =
      Resolved (JObj [(''ssh_key'', JObj [(''id'', JNum 512189)])])"
    by (simp add: replying_def key_reply_def settle_Response validateStatus_def)
  have "makeRequestRecursive (replying key_reply) orbitez_session ''ORBITEZTEZNODE'' ''nyc3''
      (JNum 512189) orbitez_spec 0 [?K] =
    (Resolved (JObj [(''ssh_key'', JObj [(''id'', JNum 512189)])]),
     [?K] @ [droplet_request orbitez_session ''ORBITEZTEZNODE'' ''nyc3'' (JNum 512189)
       orbitez_spec])"
    using second by (rule attempt_resolved)
  then show ?thesis
    unfolding createDroplet_unfold orbitez_name by (simp add: key)
qed

section \<open>The claims\<close>

text \<open>
  In the statements below a run starts from a trace \<open>tr\<close>, so
  \<open>calls tr\<close> is the number of the next call of \<^verbatim>\<open>axios\<close>, and the
  promise of the request that makes call \<open>k\<close> comes to \<open>settle (net k)\<close>
  (lemma \<open>request_outcome\<close>). That promise is fulfilled on a reply of status 200..299
  and pending on every other reply and on a failure of the transport; it is never rejected
  (lemmas \<open>settle_Response\<close>, \<open>settle_NetworkError\<close>,
  \<open>settle_never_rejects\<close>). So the retry loop, whose \<^verbatim>\<open>.catch\<close> would
  count, wait and try again, makes one attempt (lemma \<open>one_attempt\<close>).
\<close>

text \<open>
  Claim C1. Every call of \<^verbatim>\<open>request\<close> settles, a failure of the transport
  included. The code does otherwise: when \<^verbatim>\<open>axios\<close> throws, the
  \<^verbatim>\<open>catch\<close> block logs the exception and calls neither \<^verbatim>\<open>resolve\<close>
  nor \<^verbatim>\<open>reject\<close>, so for every message of the exception, every session, method,
  path and body, the promise of \<^verbatim>\<open>request\<close> stays pending after the one call.
\<close>

theorem request_network_failure_never_settles:
  "request (replying (NetworkError m)) this meth actionPath body tr =
     (Pending, tr @ [Axios (api_config this meth actionPath body)])"
  by (simp add: request_def settle_NetworkError replying_def)

text \<open>
  Claim C2. Three creation requests that fail with a finalizing message and a fourth that
  succeeds should give four attempts, 5000 ms apart, and the droplet of the fourth. The
  code does otherwise. The provider's reply in the finalizing window is a status 422, which
  \<^verbatim>\<open>axios\<close> throws; the \<^verbatim>\<open>catch\<close> of \<^verbatim>\<open>request\<close> logs it, the promise
  of the request is never rejected, and the \<^verbatim>\<open>.catch\<close> that retries never runs.
  With the key registered, three finalizing replies and then a success on offer, the run is
  the key registration and one creation request, no timer, and a promise that never
  settles.
\<close>

theorem createDroplet_finalizing_then_success_hangs:
  "createDroplet
     (script [key_reply, finalizing_reply, finalizing_reply, finalizing_reply, droplet_reply]
        (NetworkError ''ECONNRESET''))
     this displayName region publicKeyForSSH dropletSpec [] =
   (Pending,
    [key_request this (makeValidDropletName displayName) publicKeyForSSH,
     droplet_request this (makeValidDropletName displayName) region (JNum 512189)
       dropletSpec])"
proof -
  let ?net = "script [key_reply, finalizing_reply, finalizing_reply, finalizing_reply,
    droplet_reply] (NetworkError ''ECONNRESET'')"
  have "?net 0 = key_reply" by (simp add: script_def)
  moreover have "settle (?net 1) = Pending" by (simp add: script_def finalizing_reply_refused)
  ultimately show ?thesis by (simp add: creation_after_key_reply)
qed

text \<open>
  Claim C3. Creation requests that all fail with a finalizing message should give exactly
  ten attempts and then the rejection of the tenth. The code does otherwise, by the same
  defect: with the key registered and every later reply a finalizing 422, the run is the
  key registration and one creation request, and the promise never settles; there is no
  second attempt and no rejection.
\<close>

theorem createDroplet_always_finalizing_hangs:
  "createDroplet (script [key_reply] finalizing_reply)
     this displayName region publicKeyForSSH dropletSpec [] =
   (Pending,
    [key_request this (makeValidDropletName displayName) publicKeyForSSH,
     droplet_request this (makeValidDropletName displayName) region (JNum 512189)
       dropletSpec])"
proof -
  have "script [key_reply] finalizing_reply 0 = key_reply" by (simp add: script_def)
  moreover have "settle (script [key_reply] finalizing_reply 1) = Pending"
    by (simp add: script_def finalizing_reply_refused)
  ultimately show ?thesis by (simp add: creation_after_key_reply)
qed

text \<open>
  Claim C4. A first creation request that fails with another message should reject at
  once with that failure. The code does otherwise, by the same defect: the reply, a 422
  whose message does not hold \<^verbatim>\<open>finalizing\<close>, is thrown by \<^verbatim>\<open>axios\<close> and
  logged, and after the key registration and the one creation request the promise never
  settles, so the failure does not reach the caller.
\<close>

theorem createDroplet_other_failure_hangs:
  "createDroplet (script [key_reply, other_reply] (NetworkError ''ECONNRESET''))
     this displayName region publicKeyForSSH dropletSpec [] =
   (Pending,
    [key_request this (makeValidDropletName displayName) publicKeyForSSH,
     droplet_request this (makeValidDropletName displayName) region (JNum 512189)
       dropletSpec])"
proof -
  let ?net = "script [key_reply, other_reply] (NetworkError ''ECONNRESET'')"
  have "?net 0 = key_reply" by (simp add: script_def)
  moreover have "settle (?net 1) = Pending" by (simp add: script_def other_reply_refused)
  ultimately show ?thesis by (simp add: creation_after_key_reply)
qed

text \<open>
  Claim C5. A reply of status 401 should reject with \<^verbatim>\<open>XhrError\<close>, and a reply of
  another status outside 200..299 with the generic error that embeds the
  \<^verbatim>\<open>id\<close> and the \<^verbatim>\<open>message\<close> of the body. The code has both branches and
  reaches neither: \<^verbatim>\<open>axios\<close> throws on these statuses, and the \<^verbatim>\<open>catch\<close> only
  logs. For every body a reply of status 401 leaves the promise pending, and so does the
  reply of status 404 of the example.
\<close>

theorem request_refused_status_never_settles:
  "fst (request (replying (Response 401 d)) this meth actionPath body tr) = Pending \<and>
   fst (request
          (replying (Response 404
             (JObj [(''id'', JStr ''not_found''), (''message'', JStr ''droplet not found'')])))
          this meth actionPath body tr) = Pending"
  by (simp add: request_def replying_def settle_refused_status validateStatus_def)

text \<open>
  Claim C6, in the form that holds: a reply of status 200..299 fulfils the promise with the
  parsed body when the body is truthy, and with an empty object when it is empty or
  another falsy value (\<^verbatim>\<open>undefined\<close>, \<^verbatim>\<open>null\<close>, \<^verbatim>\<open>false\<close>,
  \<^verbatim>\<open>0\<close>, the empty string). For \<^verbatim>\<open>deleteDroplet\<close> on a reply of status 204
  with an empty body: the body has no text, so \<^verbatim>\<open>response.data\<close> is what the
  library makes of the empty text; whatever the parser is, the outcome is the same, the
  one \<^verbatim>\<open>DELETE\<close> request and a promise fulfilled with the empty object, which is
  the value \<^verbatim>\<open>request\<close> gives when the body holds none.
\<close>

theorem request_resolves_truthy_body_or_empty_object:
  assumes "net (calls tr) = Response status d" and "200 \<le> status" and "status \<le> 299"
  shows "fst (request net this meth actionPath body tr) =
           Resolved (if d \<in> {JUndefined, JNull, JBool False, JNum 0, JStr []} then JObj [] else d) \<and>
         deleteDroplet (replying (Response 204 (transformResponse parse []))) this dropletId tr =
           (Resolved (JObj []),
            tr @ [Axios (api_config this ''DELETE'' (''droplets/'' @ show_num dropletId) None)])"
proof
  from assms(2,3) have "validateStatus status"
    by (simp add: validateStatus_iff)
  with assms(1) show "fst (request net this meth actionPath body tr) =
      Resolved (if d \<in> {JUndefined, JNull, JBool False, JNum 0, JStr []} then JObj [] else d)"
    by (cases d) (auto simp add: request_def settle_Response)
  show "deleteDroplet (replying (Response 204 (transformResponse parse []))) this dropletId tr =
      (Resolved (JObj []),
       tr @ [Axios (api_config this ''DELETE'' (''droplets/'' @ show_num dropletId) None)])"
    by (simp add: deleteDroplet_def request_def replying_def settle_Response
        validateStatus_def transformResponse_def api_config_def)
qed

theorem request_resolves_truthy_body_or_empty_object_witness:
  "fst (request (replying droplet_reply) orbitez_session ''GET'' ''droplets/3164494'' None []) =
     Resolved (JObj [(''droplet'', JObj [(''id'', JNum 3164494)])]) \<and>
   deleteDroplet (replying (Response 204 (transformResponse (\<lambda>raw. None) []))) orbitez_session
       3164494 [] =
     (Resolved (JObj []),
      [Axios (api_config orbitez_session ''DELETE'' ''droplets/3164494'' None)])"
proof -
  have a: "replying droplet_reply (calls []) =
      Response 202 (JObj [(''droplet'', JObj [(''id'', JNum 3164494)])])"
    by (simp add: replying_def droplet_reply_def)
  have b: "(200::js_num) \<le> 202" and c: "(202::js_num) \<le> 299" by simp_all
  have s: "show_num 3164494 = ''3164494''" by (simp add: show_num_def)
  show ?thesis
    using request_resolves_truthy_body_or_empty_object
      [where net = "replying droplet_reply" and tr = "[]" and status = 202
        and d = "JObj [(''droplet'', JObj [(''id'', JNum 3164494)])]"
        and this = orbitez_session and meth = "''GET''"
        and actionPath = "''droplets/3164494''" and body = None and dropletId = 3164494
        and parse = "\<lambda>raw. None", OF a b c]
    by (simp add: s)
qed

text \<open>
  The claim as it was stated has every body that is not empty come back as it was parsed. The
  body \<^verbatim>\<open>false\<close> is not empty and parses to \<^verbatim>\<open>false\<close>, and the promise
  is fulfilled with an empty object.
\<close>

theorem request_falsy_body_counterexample:
  "fst (request (replying (Response 200 (JBool False))) \<lparr>accessToken = ''token''\<rparr>
          ''GET'' ''account'' None []) = Resolved (JObj []) \<and>
   fst (request (replying (Response 200 (JBool False))) \<lparr>accessToken = ''token''\<rparr>
          ''GET'' ''account'' None []) \<noteq> Resolved (JBool False)"
  by (simp add: request_def settle_Response validateStatus_def replying_def)

text \<open>
  Claim C7. \<^verbatim>\<open>makeValidDropletName\<close> keeps the characters of
  \<^verbatim>\<open>[A-Za-z0-9-]\<close>, in their order and as they are, and removes every other;
  \<^verbatim>\<open>My Node! #1\<close> becomes \<^verbatim>\<open>MyNode1\<close>.
\<close>

theorem makeValidDropletName_removes_exactly:
  "makeValidDropletName name =
     filter (\<lambda>c. c \<in> set ''ABCDEFGHIJKLMNOPQRSTUVWXYZabcdefghijklmnopqrstuvwxyz0123456789-'') name \<and>
   makeValidDropletName ''My Node! #1'' = ''MyNode1''"
proof
  show "makeValidDropletName name =
     filter (\<lambda>c. c \<in> set ''ABCDEFGHIJKLMNOPQRSTUVWXYZabcdefghijklmnopqrstuvwxyz0123456789-'') name"
    unfolding makeValidDropletName_filter by (rule filter_cong) (simp_all only: name_class_set)
  show "makeValidDropletName ''My Node! #1'' = ''MyNode1''"
    by (simp add: makeValidDropletName_filter name_class_def in_range_def)
qed

text \<open>
  Claim C8. The tag should travel URL-escaped, whatever it is. The code escapes it with
  \<^verbatim>\<open>encodeURI\<close>, which is made for a whole URI and keeps the marks that divide one:
  in the tag \<^verbatim>\<open>a&b=c#d\<close> nothing is escaped, and the request goes to
  \<^verbatim>\<open>droplets?tag_name=a&b=c#d\<close>, where the tag ends at \<^verbatim>\<open>&\<close>. The
  result is the field \<^verbatim>\<open>droplets\<close> of what the request comes to.
\<close>

theorem getDropletsByTag_keeps_reserved_marks:
  "getDropletsByTag net this ''a&b=c#d'' tr =
     Inr (then_p (settle (net (calls tr))) (\<lambda>response. get_prop response ''droplets''),
          tr @ [Axios \<lparr>http_method = ''GET'',
                  url = ''https://api.digitalocean.com/v2/droplets?tag_name=a&b=c#d'',
                  headers = [(''Authorization'', ''Bearer '' @ accessToken this),
                             (''Content-Type'', ''application/json'')],
                  data = None\<rparr>])"
  by (simp add: getDropletsByTag_def encodeURI_def uri_kept_def in_range_def request_def
      api_config_def)

text \<open>
  Claim C9. A key registration request that fails should reject the creation with the
  error of the registration. The code does otherwise, by the defect of the transport: a
  reply of status 401 to the registration, whatever its body, is thrown by
  \<^verbatim>\<open>axios\<close> and logged, the promise of the registration never settles, and
  \<^verbatim>\<open>createDroplet\<close> stays pending after that one request. No creation request is
  made, and no error reaches the caller.
\<close>

theorem createDroplet_key_registration_failure_hangs:
  "createDroplet (replying (Response 401 d)) this displayName region publicKeyForSSH
     dropletSpec tr =
   (Pending, tr @ [key_request this (makeValidDropletName displayName) publicKeyForSSH])"
proof -
  have "fst (registerKey (replying (Response 401 d)) this (makeValidDropletName displayName)
      publicKeyForSSH tr) = Pending"
    by (simp add: registerKey_def request_def replying_def settle_refused_status
        validateStatus_def)
  then show ?thesis by (simp add: createDroplet_unfold)
qed

text \<open>
  Claim C10. \<^verbatim>\<open>makeValidDropletName\<close> is idempotent, its result holds only
  characters of \<^verbatim>\<open>[A-Za-z0-9-]\<close>, and every request that
  \<^verbatim>\<open>createDroplet\<close> sends, the key registration and each creation attempt, carries
  the sanitised name as its \<^verbatim>\<open>name\<close>.
\<close>

theorem makeValidDropletName_idempotent_and_valid:
  "makeValidDropletName (makeValidDropletName s) = makeValidDropletName s \<and>
   set (makeValidDropletName s) \<subseteq>
     set ''ABCDEFGHIJKLMNOPQRSTUVWXYZabcdefghijklmnopqrstuvwxyz0123456789-'' \<and>
   (\<forall>c. Axios c \<in> set (snd (createDroplet net this s region publicKeyForSSH dropletSpec [])) \<longrightarrow>
      (\<exists>fs. data c = Some (JObj fs) \<and>
         map_of fs ''name'' = Some (JStr (makeValidDropletName s))))"
proof (intro conjI allI impI)
  show "makeValidDropletName (makeValidDropletName s) = makeValidDropletName s"
    by (simp add: makeValidDropletName_filter)
  show "set (makeValidDropletName s) \<subseteq>
     set ''ABCDEFGHIJKLMNOPQRSTUVWXYZabcdefghijklmnopqrstuvwxyz0123456789-''"
  proof
    fix c assume "c \<in> set (makeValidDropletName s)"
    then have "name_class c" by (simp add: makeValidDropletName_filter)
    then show "c \<in> set ''ABCDEFGHIJKLMNOPQRSTUVWXYZabcdefghijklmnopqrstuvwxyz0123456789-''"
      by (simp only: name_class_set)
  qed
next
  fix c
  assume "Axios c \<in> set (snd (createDroplet net this s region publicKeyForSSH dropletSpec []))"
  then have "Axios c \<in> set [] \<or>
         Axios c = key_request this (makeValidDropletName s) publicKeyForSSH \<or>
         (\<exists>keyId. Axios c = droplet_request this (makeValidDropletName s) region keyId
            dropletSpec) \<or>
         Axios c = SetTimeout RETRY_TIMEOUT_MS"
    by (rule createDroplet_events)
  then show "\<exists>fs. data c = Some (JObj fs) \<and>
         map_of fs ''name'' = Some (JStr (makeValidDropletName s))"
    using key_request_name droplet_request_name by fastforce
qed

theorem makeValidDropletName_idempotent_and_valid_witness:
  "makeValidDropletName (makeValidDropletName ''ORBITEZ_TEZ_NODE'') = ''ORBITEZTEZNODE'' \<and>
   (\<exists>fs. data (api_config orbitez_session ''POST'' ''droplets''
             (Some (droplet_body ''ORBITEZTEZNODE'' ''nyc3'' (JNum 512189) orbitez_spec))) =
           Some (JObj fs) \<and>
         map_of fs ''name'' = Some (JStr ''ORBITEZTEZNODE''))"
proof -
  have "Axios (api_config orbitez_session ''POST'' ''droplets''
             (Some (droplet_body ''ORBITEZTEZNODE'' ''nyc3'' (JNum 512189) orbitez_spec))) \<in>
      set (snd (createDroplet (replying key_reply) orbitez_session ''ORBITEZ_TEZ_NODE'' ''nyc3''
        ''ssh-rsa AAAAB3Nza'' orbitez_spec []))"
    by (simp add: two_request_run droplet_request_def)
  then show ?thesis
    using makeValidDropletName_idempotent_and_valid
      [of "''ORBITEZ_TEZ_NODE''" "replying key_reply" orbitez_session "''nyc3''"
        "''ssh-rsa AAAAB3Nza''" orbitez_spec]
    by (simp add: orbitez_name)
qed

end
